theory Spec2Isabelle
  imports Complex_Main
begin

section \<open>Lumi inference server (scripts/06\_serve.py)\<close>

text \<open>
  A shallow embedding of the inference script: the request model, the prompt templates,
  \<open>ModelServer.generate\<close>, the \<open>/generate\<close> endpoint and the interactive console loop.

  The model and the tokenizer come from the torch and transformers libraries. They are
  represented by records of functions (their capabilities), each of which may raise.
  Every call made to them is written to a log, so that what the script passes to the
  libraries can be stated.
\<close>

subsection \<open>Python strings\<close>

text \<open>
  A Python \<open>str\<close> is a sequence of Unicode code points: \<open>len\<close> counts code points and
  slicing cuts between them. A string is therefore a list of code points; \<open>lit\<close> embeds
  an ASCII literal.
\<close>

type_synonym pystr = "nat list"

definition lit :: "string \<Rightarrow> pystr" where
  "lit s = map of_char s"

text \<open>
  \<open>str.strip()\<close> without argument removes leading and trailing whitespace, where
  whitespace is what CPython's \<open>Py_UNICODE_ISSPACE\<close> accepts.
\<close>

definition py_isspace :: "nat \<Rightarrow> bool" where
  "py_isspace c \<longleftrightarrow>
     (0x09 \<le> c \<and> c \<le> 0x0D) \<or> (0x1C \<le> c \<and> c \<le> 0x20) \<or> c = 0x85 \<or> c = 0xA0 \<or>
     c = 0x1680 \<or> (0x2000 \<le> c \<and> c \<le> 0x200A) \<or> c = 0x2028 \<or> c = 0x2029 \<or>
     c = 0x202F \<or> c = 0x205F \<or> c = 0x3000"

definition py_strip :: "pystr \<Rightarrow> pystr" where
  "py_strip s = rev (dropWhile py_isspace (rev (dropWhile py_isspace s)))"

text \<open>
  \<open>str.lower()\<close>: on a string of ASCII code points it maps \<open>A..Z\<close> to \<open>a..z\<close> and
  leaves the rest. On other strings it follows the Unicode case tables, which are not
  part of the script: they are the parameter \<open>ulower\<close>.
\<close>

definition ascii_lower :: "nat \<Rightarrow> nat" where
  "ascii_lower c = (if 0x41 \<le> c \<and> c \<le> 0x5A then c + 0x20 else c)"

definition py_lower :: "(pystr \<Rightarrow> pystr) \<Rightarrow> pystr \<Rightarrow> pystr" where
  "py_lower ulower s = (if list_all (\<lambda>c. c < 0x80) s then map ascii_lower s else ulower s)"

text \<open>\<open>s.startswith(p)\<close>.\<close>

definition py_startswith :: "pystr \<Rightarrow> pystr \<Rightarrow> bool" where
  "py_startswith s p \<longleftrightarrow> take (length p) s = p"

subsection \<open>Exceptions\<close>

text \<open>
  Every exception below is a subclass of \<open>Exception\<close>: one raised by a library call,
  with its message, or the \<open>IndexError\<close> of \<open>outputs[0]\<close> on an empty batch.
  \<open>str_error\<close> is \<open>str(e)\<close>.
\<close>

datatype error = LibraryError pystr | IndexError

fun str_error :: "error \<Rightarrow> pystr" where
  "str_error (LibraryError msg) = msg"
| "str_error IndexError = lit ''index 0 is out of bounds for dimension 0 with size 0''"

subsection \<open>The request model (lines 22--37)\<close>

text \<open>
  Python floats are only stored and passed on by the script, never computed with; a
  float literal is represented by the rational number it is written as. \<open>Optional[T]\<close>
  is \<open>T option\<close>, with \<open>None\<close> for Python's \<open>None\<close>.
\<close>

type_synonym pyfloat = rat

record GenerationRequest =
  prompt :: pystr
  max_new_tokens :: "int option"
  temperature :: "pyfloat option"
  top_p :: "pyfloat option"
  repetition_penalty :: "pyfloat option"
  do_sample :: "bool option"
  template :: "pystr option"

text \<open>
  Constructing a \<open>GenerationRequest\<close>: \<open>prompt\<close> is required; each other field is either
  supplied (\<open>Some v\<close>, where \<open>v\<close> may be \<open>None\<close>) or omitted (\<open>None\<close>), and an omitted
  field takes the default declared in the class.
\<close>

definition field_default :: "'a option \<Rightarrow> 'a \<Rightarrow> 'a" where
  "field_default supplied d = (case supplied of None \<Rightarrow> d | Some v \<Rightarrow> v)"

definition new_GenerationRequest ::
  "pystr \<Rightarrow> int option option \<Rightarrow> pyfloat option option \<Rightarrow> pyfloat option option \<Rightarrow>
   pyfloat option option \<Rightarrow> bool option option \<Rightarrow> pystr option option \<Rightarrow> GenerationRequest" where
  "new_GenerationRequest p mnt t tp rp ds tmpl =
     \<lparr>prompt = p,
      max_new_tokens = field_default mnt (Some 100),
      temperature = field_default t (Some (7 / 10)),
      top_p = field_default tp (Some (9 / 10)),
      repetition_penalty = field_default rp (Some (11 / 10)),
      do_sample = field_default ds (Some True),
      template = field_default tmpl (Some (lit ''chatml''))\<rparr>"

text \<open>The \<open>generation_config\<close> dictionary of the response echoes five request fields.\<close>

record config_echo =
  echo_max_new_tokens :: "int option"
  echo_temperature :: "pyfloat option"
  echo_top_p :: "pyfloat option"
  echo_repetition_penalty :: "pyfloat option"
  echo_template :: "pystr option"

record GenerationResponse =
  response :: pystr
  response_prompt :: pystr
  generation_config :: config_echo

subsection \<open>Model, tokenizer and the log of library calls\<close>

text \<open>The dictionary of keyword arguments built at lines 128--138.\<close>

record decoding_config =
  cfg_max_new_tokens :: "int option"
  cfg_temperature :: "pyfloat option"
  cfg_top_p :: "pyfloat option"
  cfg_repetition_penalty :: "pyfloat option"
  cfg_do_sample :: "bool option"
  cfg_pad_token_id :: "nat option"
  cfg_eos_token_id :: "nat option"
  cfg_early_stopping :: bool
  cfg_no_repeat_ngram_size :: nat

text \<open>The result of a tokenizer call: \<open>input_ids\<close> and \<open>attention_mask\<close> of the one sequence.\<close>

record encoding =
  input_ids :: "nat list"
  attention_mask :: "nat list"

text \<open>
  The tokenizer: its \<open>pad_token\<close> and \<open>eos_token\<close> attributes, the vocabulary lookup
  behind \<open>pad_token_id\<close> and \<open>eos_token_id\<close>, its encoder and its decoder (the second
  argument of \<open>tk_decode\<close> is \<open>skip_special_tokens\<close>).
\<close>

record tokenizer =
  pad_token :: "pystr option"
  eos_token :: "pystr option"
  convert_tokens_to_ids :: "pystr \<Rightarrow> nat option"
  tk_encode :: "pystr \<Rightarrow> error + nat list"
  tk_decode :: "nat list \<Rightarrow> bool \<Rightarrow> error + pystr"

definition eos_token_id :: "tokenizer \<Rightarrow> nat option" where
  "eos_token_id tk = (case eos_token tk of None \<Rightarrow> None | Some t \<Rightarrow> convert_tokens_to_ids tk t)"

definition pad_token_id :: "tokenizer \<Rightarrow> nat option" where
  "pad_token_id tk = (case pad_token tk of None \<Rightarrow> None | Some t \<Rightarrow> convert_tokens_to_ids tk t)"

text \<open>
  Modelled from the spec: the tokenizer's encoding call belongs to the transformers
  library and is not in the script. Section 4.3, step 2: "Encode the formatted prompt to
  a token sequence, truncating to at most 2048 tokens if longer (truncation is silent,
  not an error)"; step 3: "an attention mask covering it". The arguments are the text,
  \<open>truncation\<close> and \<open>max_length\<close>.
\<close>

definition tokenizer_call :: "tokenizer \<Rightarrow> pystr \<Rightarrow> bool \<Rightarrow> nat \<Rightarrow> error + encoding" where
  "tokenizer_call tk text truncation max_length =
     (case tk_encode tk text of
        Inl e \<Rightarrow> Inl e
      | Inr ids \<Rightarrow>
          let kept = (if truncation then take max_length ids else ids)
          in Inr \<lparr>input_ids = kept, attention_mask = replicate (length kept) 1\<rparr>)"

text \<open>
  The model: its device and its \<open>generate\<close> method, from the input ids, the attention
  mask and the keyword arguments to a batch of output sequences. The handles are read-only
  after loading, so a capability is a function of its arguments; the random choices of
  sampling are taken as fixed in it.
\<close>

record model =
  model_device :: pystr
  model_generate :: "nat list \<Rightarrow> nat list \<Rightarrow> decoding_config \<Rightarrow> error + nat list list"

datatype library_call =
    TokenizerCall pystr bool nat
  | ModelGenerate "nat list" "nat list" decoding_config
  | Decode "nat list" bool

text \<open>
  A computation that calls the libraries yields the calls it made, in order, and either
  the exception that ended it or its value.
\<close>

type_synonym 'a logged = "library_call list \<times> (error + 'a)"

definition returning :: "'a \<Rightarrow> 'a logged" where
  "returning x = ([], Inr x)"

definition raising :: "error \<Rightarrow> 'a logged" where
  "raising e = ([], Inl e)"

definition call :: "library_call \<Rightarrow> error + 'a \<Rightarrow> 'a logged" where
  "call c r = ([c], r)"

definition and_then :: "'a logged \<Rightarrow> ('a \<Rightarrow> 'b logged) \<Rightarrow> 'b logged" where
  "and_then m f =
     (case snd m of
        Inl e \<Rightarrow> (fst m, Inl e)
      | Inr x \<Rightarrow> (fst m @ fst (f x), snd (f x)))"

subsection \<open>ModelServer (lines 40--154)\<close>

record ModelServer =
  model :: model
  tokenizer :: tokenizer
  device :: pystr

text \<open>
  \<open>__init__\<close> (lines 51--65). Loading is done by \<open>load_pretrained_model\<close> and
  \<open>AutoTokenizer.from_pretrained\<close>, the parameters \<open>load_model\<close> and \<open>load_tokenizer\<close>.
  \<open>if tokenizer_path:\<close> is false for \<open>None\<close> and for the empty string.
\<close>

definition ensure_pad_token :: "tokenizer \<Rightarrow> tokenizer" where
  "ensure_pad_token tk = (if pad_token tk = None then tk\<lparr>pad_token := eos_token tk\<rparr> else tk)"

definition new_ModelServer ::
  "(pystr \<Rightarrow> error + model) \<Rightarrow> (pystr \<Rightarrow> error + tokenizer) \<Rightarrow> pystr \<Rightarrow> pystr option \<Rightarrow>
   error + ModelServer" where
  "new_ModelServer load_model load_tokenizer model_path tokenizer_path =
     (case load_model model_path of
        Inl e \<Rightarrow> Inl e
      | Inr m \<Rightarrow>
          (case load_tokenizer
                  (case tokenizer_path of
                     None \<Rightarrow> model_path
                   | Some path \<Rightarrow> if path = [] then model_path else path) of
             Inl e \<Rightarrow> Inl e
           | Inr tk \<Rightarrow>
               Inr \<lparr>model = m, tokenizer = ensure_pad_token tk, device = model_device m\<rparr>))"

text \<open>\<open>format_prompt\<close> (lines 70--89). A template of \<open>None\<close> equals none of the names.\<close>

definition format_prompt :: "pystr \<Rightarrow> pystr option \<Rightarrow> pystr" where
  "format_prompt prompt_text template_name =
     (if template_name = Some (lit ''chatml'') then
        lit ''<|im_start|>user\<newline>'' @ prompt_text
          @ lit ''\<newline><|im_end|>\<newline><|im_start|>assistant\<newline>''
      else if template_name = Some (lit ''chat'') then
        lit ''Human: '' @ prompt_text @ lit ''\<newline>\<newline>Assistant: ''
      else if template_name = Some (lit ''instruct'') then
        lit ''### Instruction:\<newline>'' @ prompt_text @ lit ''\<newline>\<newline>### Response:\<newline>''
      else prompt_text)"

text \<open>\<open>outputs[0]\<close>.\<close>

definition first_output :: "nat list list \<Rightarrow> error + nat list" where
  "first_output outputs = (case outputs of [] \<Rightarrow> Inl IndexError | out # _ \<Rightarrow> Inr out)"

text \<open>
  \<open>generate\<close> (lines 91--154). Moving the inputs to the device and \<open>torch.no_grad()\<close>
  change no value. \<open>full_response[len(formatted_prompt):]\<close> is \<open>drop\<close>: a start beyond
  the end gives the empty string.
\<close>

definition generate ::
  "ModelServer \<Rightarrow> pystr \<Rightarrow> int option \<Rightarrow> pyfloat option \<Rightarrow> pyfloat option \<Rightarrow> pyfloat option \<Rightarrow>
   bool option \<Rightarrow> pystr option \<Rightarrow> (pystr \<times> pystr) logged" where
  "generate self prompt_text max_new_tokens_arg temperature_arg top_p_arg repetition_penalty_arg
       do_sample_arg template_name =
     (let formatted_prompt = format_prompt prompt_text template_name in
      and_then (call (TokenizerCall formatted_prompt True 2048)
                  (tokenizer_call (tokenizer self) formatted_prompt True 2048)) (\<lambda>inputs.
      let generation_config =
            \<lparr>cfg_max_new_tokens = max_new_tokens_arg,
             cfg_temperature = temperature_arg,
             cfg_top_p = top_p_arg,
             cfg_repetition_penalty = repetition_penalty_arg,
             cfg_do_sample = do_sample_arg,
             cfg_pad_token_id = eos_token_id (tokenizer self),
             cfg_eos_token_id = eos_token_id (tokenizer self),
             cfg_early_stopping = True,
             cfg_no_repeat_ngram_size = 3\<rparr> in
      and_then (call (ModelGenerate (input_ids inputs) (attention_mask inputs) generation_config)
                  (model_generate (model self) (input_ids inputs) (attention_mask inputs)
                     generation_config)) (\<lambda>outputs.
      and_then (case first_output outputs of Inl e \<Rightarrow> raising e | Inr out \<Rightarrow> returning out) (\<lambda>out.
      and_then (call (Decode out True) (tk_decode (tokenizer self) out True)) (\<lambda>full_response.
      let generated_response = py_strip (drop (length formatted_prompt) full_response)
      in returning (formatted_prompt, generated_response))))))"

subsection \<open>The API endpoint (lines 185--220)\<close>

record HTTPException =
  status_code :: nat
  detail :: pystr

text \<open>
  The handler of \<open>POST /generate\<close>. \<open>except Exception\<close> catches whatever \<open>generate\<close>
  raised; the detail is the prefix of line 220 (its two accented letters are the code
  point \<open>0xE9\<close>) followed by \<open>str(e)\<close>.
\<close>

definition api_error_prefix :: pystr where
  "api_error_prefix = lit ''Erreur de g'' @ [0xE9] @ lit ''n'' @ [0xE9] @ lit ''ration: ''"

definition api_generate ::
  "ModelServer \<Rightarrow> GenerationRequest \<Rightarrow> library_call list \<times> (HTTPException + GenerationResponse)" where
  "api_generate model_server request =
     (let attempt = generate model_server (prompt request) (max_new_tokens request)
                      (temperature request) (top_p request) (repetition_penalty request)
                      (do_sample request) (template request)
      in case snd attempt of
           Inr (formatted_prompt, response_text) \<Rightarrow>
             (fst attempt,
              Inr \<lparr>response = response_text,
                   response_prompt = prompt request,
                   generation_config =
                     \<lparr>echo_max_new_tokens = max_new_tokens request,
                      echo_temperature = temperature request,
                      echo_top_p = top_p request,
                      echo_repetition_penalty = repetition_penalty request,
                      echo_template = template request\<rparr>\<rparr>)
         | Inl e \<Rightarrow>
             (fst attempt, Inl \<lparr>status_code = 500, detail = api_error_prefix @ str_error e\<rparr>))"

subsection \<open>The interactive console (lines 236--273)\<close>

text \<open>
  The parsed command line, as far as the loop reads it.
\<close>

record args =
  args_max_new_tokens :: int
  args_temperature :: pyfloat
  args_top_p :: pyfloat
  args_repetition_penalty :: pyfloat
  args_do_sample :: bool
  args_template :: pystr

text \<open>
  What \<open>input()\<close> gives, one element per call: a line, or a \<open>KeyboardInterrupt\<close>. When the
  list is used up, standard input is at its end and \<open>input()\<close> raises \<open>EOFError\<close>.
  An interrupt that arrives while a generation is running is not represented.
\<close>

datatype console_input = Line pystr | KeyboardInterrupt

text \<open>The texts written to standard output; \<open>print\<close> ends its text with a newline.\<close>

definition py_print :: "pystr \<Rightarrow> pystr" where
  "py_print s = s @ [0x0A]"

definition input_prompt :: pystr where
  "input_prompt = [0x0A, 0x1F464] @ lit '' Vous: ''"

definition farewell :: pystr where
  "farewell = py_print (lit ''Au revoir! '' @ [0x1F44B])"

definition farewell_interrupted :: pystr where
  "farewell_interrupted = py_print ([0x0A, 0x0A] @ lit ''Au revoir! '' @ [0x1F44B])"

definition lumi_prefix :: pystr where
  "lumi_prefix = [0x1F916] @ lit '' Lumi: ''"

definition console_error :: "error \<Rightarrow> pystr" where
  "console_error e =
     py_print ([0x274C] @ lit '' Erreur lors de la g'' @ [0xE9] @ lit ''n'' @ [0xE9] @ lit ''ration: ''
               @ str_error e)"

text \<open>
  The effects of the console: the library calls made and the texts written, in order.
\<close>

type_synonym console_effects = "library_call list \<times> pystr list"

definition followed_by :: "console_effects \<Rightarrow> console_effects \<Rightarrow> console_effects" where
  "followed_by a b = (fst a @ fst b, snd a @ snd b)"

text \<open>
  The loop of \<open>interactive_mode\<close>. The banner printed before it (lines 228--234) is left
  out. \<open>break\<close> ends the recursion, \<open>continue\<close> and the end of the body go on with the
  remaining input.
\<close>

fun interactive_mode ::
  "(pystr \<Rightarrow> pystr) \<Rightarrow> ModelServer \<Rightarrow> args \<Rightarrow> console_input list \<Rightarrow> console_effects" where
  "interactive_mode ulower model_server args [] = ([], [input_prompt, farewell_interrupted])"
| "interactive_mode ulower model_server args (KeyboardInterrupt # rest) =
     ([], [input_prompt, farewell_interrupted])"
| "interactive_mode ulower model_server args (Line text # rest) =
     (let user_input = py_strip text in
      if py_lower ulower user_input \<in> set [lit ''exit'', lit ''quit'', lit ''q''] then
        ([], [input_prompt, farewell])
      else if user_input = [] then
        followed_by ([], [input_prompt]) (interactive_mode ulower model_server args rest)
      else
        let attempt = generate model_server user_input (Some (args_max_new_tokens args))
                        (Some (args_temperature args)) (Some (args_top_p args))
                        (Some (args_repetition_penalty args)) (Some (args_do_sample args))
                        (Some (args_template args))
        in followed_by
             (fst attempt,
              [input_prompt, lumi_prefix,
               (case snd attempt of
                  Inr (formatted_prompt, response_text) \<Rightarrow> py_print response_text
                | Inl e \<Rightarrow> console_error e)])
             (interactive_mode ulower model_server args rest))"

subsection \<open>A small server for concrete runs\<close>

text \<open>
  A character-level tokenizer (a token id is a code point; ids 0 and 2 are the padding
  and end-of-sequence tokens, which decoding skips on request) and a model that echoes
  its input, appends a fixed continuation and the end-of-sequence token, and fails on an
  input containing an exclamation mark.
\<close>

definition char_tokenizer :: tokenizer where
  "char_tokenizer =
     \<lparr>pad_token = Some (lit ''<pad>''),
      eos_token = Some (lit ''</s>''),
      convert_tokens_to_ids =
        (\<lambda>t. if t = lit ''<pad>'' then Some 0 else if t = lit ''</s>'' then Some 2 else None),
      tk_encode = (\<lambda>text. Inr text),
      tk_decode = (\<lambda>ids skip_special_tokens.
                     Inr (if skip_special_tokens then filter (\<lambda>i. i \<noteq> 0 \<and> i \<noteq> 2) ids else ids))\<rparr>"

definition scripted_model :: "pystr \<Rightarrow> model" where
  "scripted_model continuation =
     \<lparr>model_device = lit ''cpu'',
      model_generate =
        (\<lambda>ids attn config.
           if 0x21 \<in> set ids then Inl (LibraryError (lit ''generation failed''))
           else Inr [ids @ continuation @ [2]])\<rparr>"

definition demo_server :: "pystr \<Rightarrow> ModelServer" where
  "demo_server continuation =
     \<lparr>model = scripted_model continuation, tokenizer = char_tokenizer, device = lit ''cpu''\<rparr>"

definition demo_args :: "pystr \<Rightarrow> args" where
  "demo_args template_name =
     \<lparr>args_max_new_tokens = 100, args_temperature = 7 / 10, args_top_p = 9 / 10,
      args_repetition_penalty = 11 / 10, args_do_sample = True, args_template = template_name\<rparr>"

definition demo_config :: decoding_config where
  "demo_config =
     \<lparr>cfg_max_new_tokens = Some 5, cfg_temperature = Some 2, cfg_top_p = None,
      cfg_repetition_penalty = Some 1, cfg_do_sample = Some False, cfg_pad_token_id = Some 2,
      cfg_eos_token_id = Some 2, cfg_early_stopping = True, cfg_no_repeat_ngram_size = 3\<rparr>"

definition failing_request :: GenerationRequest where
  "failing_request =
     new_GenerationRequest (lit ''hi!'') None None None None None (Some (Some (lit ''raw'')))"

definition valid_request :: GenerationRequest where
  "valid_request =
     new_GenerationRequest (lit ''hi'') None None None None None (Some (Some (lit ''raw'')))"

section \<open>Properties\<close>

subsection \<open>Unfolding and evaluation\<close>

lemmas logged_defs = and_then_def call_def returning_def raising_def

lemmas demo_defs = demo_server_def scripted_model_def char_tokenizer_def demo_args_def

lemmas run_defs = generate_def logged_defs first_output_def Let_def tokenizer_call_def
  format_prompt_def lit_def py_strip_def py_isspace_def eos_token_id_def pad_token_id_def

lemmas request_defs = failing_request_def valid_request_def new_GenerationRequest_def
  field_default_def

text \<open>
  Whenever the model's \<open>generate\<close> is called, its keyword arguments are the dictionary
  of lines 128--138 and its inputs are what the tokenizer returned.
\<close>

lemma generate_model_call:
  assumes "ModelGenerate ids attn cfg \<in> set (fst (generate self p mnt t tp rp ds tmpl))"
  shows "cfg = \<lparr>cfg_max_new_tokens = mnt, cfg_temperature = t, cfg_top_p = tp,
                cfg_repetition_penalty = rp, cfg_do_sample = ds,
                cfg_pad_token_id = eos_token_id (tokenizer self),
                cfg_eos_token_id = eos_token_id (tokenizer self),
                cfg_early_stopping = True, cfg_no_repeat_ngram_size = 3\<rparr>
         \<and> tokenizer_call (tokenizer self) (format_prompt p tmpl) True 2048
             = Inr \<lparr>input_ids = ids, attention_mask = attn\<rparr>"
  using assms
  by (auto simp: generate_def logged_defs first_output_def Let_def split: sum.splits list.splits)

text \<open>The model never receives more than 2048 tokens, and the mask has their length.\<close>

lemma model_input_at_most_2048:
  assumes "ModelGenerate ids attn cfg \<in> set (fst (generate self p mnt t tp rp ds tmpl))"
  shows "length ids \<le> 2048 \<and> length attn = length ids"
  using generate_model_call [OF assms]
  by (auto simp: tokenizer_call_def Let_def split: sum.splits)

text \<open>
  Every run of \<open>generate\<close> starts with a tokenizer call, so a computation whose log is
  empty has not run it.
\<close>

lemma generate_makes_a_call: "fst (generate self p mnt t tp rp ds tmpl) \<noteq> []"
  by (simp add: generate_def logged_defs Let_def split: sum.splits)

subsection \<open>Stripping and lower-casing the exit keywords\<close>

lemma dropWhile_none: "\<forall>c\<in>set s. \<not> P c \<Longrightarrow> dropWhile P s = s"
  by (cases s) auto

lemma py_strip_no_space: "\<forall>c\<in>set s. \<not> py_isspace c \<Longrightarrow> py_strip s = s"
  by (simp add: py_strip_def dropWhile_none)

lemma py_strip_empty: "py_strip [] = []"
  by (simp add: py_strip_def)

lemma py_lower_empty: "py_lower ulower [] = []"
  by (simp add: py_lower_def)

lemma ascii_lower_letter:
  "97 \<le> ascii_lower c \<Longrightarrow> ascii_lower c \<le> 122 \<Longrightarrow> c < 128 \<and> \<not> py_isspace c"
  by (auto simp: ascii_lower_def py_isspace_def split: if_splits)

lemma keyword_letters:
  assumes "k \<in> {lit ''exit'', lit ''quit'', lit ''q''}" and "x \<in> set k"
  shows "97 \<le> x \<and> x \<le> 122"
  using assms by (auto simp: lit_def)

lemma keyword_variant_chars:
  assumes "map ascii_lower s \<in> {lit ''exit'', lit ''quit'', lit ''q''}" and "c \<in> set s"
  shows "c < 128 \<and> \<not> py_isspace c"
proof -
  from assms(2) have "ascii_lower c \<in> set (map ascii_lower s)" by simp
  with assms(1) have "97 \<le> ascii_lower c \<and> ascii_lower c \<le> 122"
    by (rule keyword_letters)
  then show ?thesis by (simp add: ascii_lower_letter)
qed

lemma keyword_variant_lower:
  assumes "map ascii_lower s \<in> {lit ''exit'', lit ''quit'', lit ''q''}"
  shows "py_lower ulower s = map ascii_lower s"
proof -
  have "list_all (\<lambda>c. c < 0x80) s"
    using keyword_variant_chars [OF assms] by (simp add: list_all_iff)
  then show ?thesis by (simp add: py_lower_def)
qed

lemma keyword_variant_strip:
  assumes "map ascii_lower s \<in> {lit ''exit'', lit ''quit'', lit ''q''}"
  shows "py_strip s = s"
  using keyword_variant_chars [OF assms] by (simp add: py_strip_no_space)

lemma interactive_mode_exit:
  assumes "map ascii_lower (py_strip typed) \<in> {lit ''exit'', lit ''quit'', lit ''q''}"
  shows "interactive_mode ulower self args (Line typed # rest) = ([], [input_prompt, farewell])"
  using assms keyword_variant_lower [OF assms, of ulower] by simp

subsection \<open>Prompt templates\<close>

text \<open>
  C2. For every prompt \<open>P\<close>, \<open>format_prompt\<close> returns the ChatML block for the template
  \<open>chatml\<close>, \<open>Human: P\<dots>Assistant: \<close> for \<open>chat\<close>, the instruction block for
  \<open>instruct\<close>, and \<open>P\<close> unchanged for \<open>raw\<close> and for every other template value
  (\<open>None\<close> included); it is a function of its two arguments and never raises.
\<close>

theorem format_prompt_templates:
  "format_prompt P (Some (lit ''chatml'')) =
     lit ''<|im_start|>user\<newline>'' @ P @ lit ''\<newline><|im_end|>\<newline><|im_start|>assistant\<newline>''
   \<and> format_prompt P (Some (lit ''chat'')) = lit ''Human: '' @ P @ lit ''\<newline>\<newline>Assistant: ''
   \<and> format_prompt P (Some (lit ''instruct'')) =
       lit ''### Instruction:\<newline>'' @ P @ lit ''\<newline>\<newline>### Response:\<newline>''
   \<and> format_prompt P (Some (lit ''raw'')) = P
   \<and> (T \<notin> {Some (lit ''chatml''), Some (lit ''chat''), Some (lit ''instruct'')}
        \<longrightarrow> format_prompt P T = P)"
  by (simp add: format_prompt_def lit_def)

theorem format_prompt_templates_witness:
  "Some (lit ''markdown'') \<notin> {Some (lit ''chatml''), Some (lit ''chat''), Some (lit ''instruct'')}
   \<and> format_prompt (lit ''hello'') (Some (lit ''markdown'')) = lit ''hello''
   \<and> format_prompt (lit ''hello'') None = lit ''hello''
   \<and> format_prompt (lit ''hello'') (Some (lit ''chatml'')) =
       lit ''<|im_start|>user\<newline>hello\<newline><|im_end|>\<newline><|im_start|>assistant\<newline>''"
proof -
  have h: "Some (lit ''markdown'') \<notin> {Some (lit ''chatml''), Some (lit ''chat''), Some (lit ''instruct'')}"
    by (simp add: lit_def)
  have n: "None \<notin> {Some (lit ''chatml''), Some (lit ''chat''), Some (lit ''instruct'')}"
    by simp
  show ?thesis
    using h format_prompt_templates [of "lit ''hello''" "Some (lit ''markdown'')"]
      n format_prompt_templates [of "lit ''hello''" None]
    by (simp add: lit_def)
qed

subsection \<open>Request defaults\<close>

text \<open>
  C6. A request built from a prompt alone has \<open>max_new_tokens = 100\<close>,
  \<open>temperature = 0.7\<close>, \<open>top_p = 0.9\<close>, \<open>repetition_penalty = 1.1\<close>,
  \<open>do_sample = True\<close> and \<open>template = "chatml"\<close>. Each field defaults on its own: an
  omitted field has its default whatever is supplied for the others, and a supplied
  field keeps its value.
\<close>

theorem request_defaults:
  "new_GenerationRequest p None None None None None None =
     \<lparr>prompt = p, max_new_tokens = Some 100, temperature = Some (7 / 10), top_p = Some (9 / 10),
      repetition_penalty = Some (11 / 10), do_sample = Some True,
      template = Some (lit ''chatml'')\<rparr>
   \<and> max_new_tokens (new_GenerationRequest p None t tp rp ds tmpl) = Some 100
   \<and> temperature (new_GenerationRequest p mnt None tp rp ds tmpl) = Some (7 / 10)
   \<and> top_p (new_GenerationRequest p mnt t None rp ds tmpl) = Some (9 / 10)
   \<and> repetition_penalty (new_GenerationRequest p mnt t tp None ds tmpl) = Some (11 / 10)
   \<and> do_sample (new_GenerationRequest p mnt t tp rp None tmpl) = Some True
   \<and> template (new_GenerationRequest p mnt t tp rp ds None) = Some (lit ''chatml'')
   \<and> max_new_tokens (new_GenerationRequest p (Some v1) t tp rp ds tmpl) = v1
   \<and> temperature (new_GenerationRequest p mnt (Some v2) tp rp ds tmpl) = v2
   \<and> top_p (new_GenerationRequest p mnt t (Some v3) rp ds tmpl) = v3
   \<and> repetition_penalty (new_GenerationRequest p mnt t tp (Some v4) ds tmpl) = v4
   \<and> do_sample (new_GenerationRequest p mnt t tp rp (Some v5) tmpl) = v5
   \<and> template (new_GenerationRequest p mnt t tp rp ds (Some v6)) = v6"
  by (simp add: new_GenerationRequest_def field_default_def)

subsection \<open>The completion\<close>

text \<open>
  C3. When \<open>generate\<close> returns, the first component is the formatted prompt, and the
  completion is the text decoded from the first output sequence of the model with
  \<open>skip_special_tokens = True\<close>, without its first \<open>len(formatted_prompt)\<close> code
  points, stripped of leading and trailing whitespace.
\<close>

theorem generate_completion:
  assumes "snd (generate self p mnt t tp rp ds tmpl) = Inr (fp, completion)"
  shows "\<exists>ids attn cfg out rest full_response.
           fp = format_prompt p tmpl \<and>
           ModelGenerate ids attn cfg \<in> set (fst (generate self p mnt t tp rp ds tmpl)) \<and>
           model_generate (model self) ids attn cfg = Inr (out # rest) \<and>
           Decode out True \<in> set (fst (generate self p mnt t tp rp ds tmpl)) \<and>
           tk_decode (tokenizer self) out True = Inr full_response \<and>
           completion = py_strip (drop (length fp) full_response)"
  using assms
  by (auto simp: generate_def logged_defs first_output_def Let_def split: sum.splits list.splits)

theorem generate_completion_witness:
  "snd (generate (demo_server (lit ''  ok '')) (lit ''hi'') (Some 100) (Some (7 / 10)) (Some (9 / 10))
          (Some (11 / 10)) (Some True) (Some (lit ''chat'')))
     = Inr (lit ''Human: hi\<newline>\<newline>Assistant: '', lit ''ok'')
   \<and> (\<exists>ids attn cfg out rest full_response.
         lit ''Human: hi\<newline>\<newline>Assistant: '' = format_prompt (lit ''hi'') (Some (lit ''chat'')) \<and>
         ModelGenerate ids attn cfg
           \<in> set (fst (generate (demo_server (lit ''  ok '')) (lit ''hi'') (Some 100) (Some (7 / 10))
                          (Some (9 / 10)) (Some (11 / 10)) (Some True) (Some (lit ''chat'')))) \<and>
         model_generate (model (demo_server (lit ''  ok ''))) ids attn cfg = Inr (out # rest) \<and>
         Decode out True
           \<in> set (fst (generate (demo_server (lit ''  ok '')) (lit ''hi'') (Some 100) (Some (7 / 10))
                          (Some (9 / 10)) (Some (11 / 10)) (Some True) (Some (lit ''chat'')))) \<and>
         tk_decode (tokenizer (demo_server (lit ''  ok ''))) out True = Inr full_response \<and>
         lit ''ok'' = py_strip (drop (length (lit ''Human: hi\<newline>\<newline>Assistant: '')) full_response))"
proof -
  have h: "snd (generate (demo_server (lit ''  ok '')) (lit ''hi'') (Some 100) (Some (7 / 10))
                  (Some (9 / 10)) (Some (11 / 10)) (Some True) (Some (lit ''chat'')))
             = Inr (lit ''Human: hi\<newline>\<newline>Assistant: '', lit ''ok'')"
    by (simp add: run_defs demo_defs)
  show ?thesis
    using h generate_completion [OF h] by blast
qed

text \<open>
  C4, as amended. The prompt is removed once, by length: when the decoded text is the
  formatted prompt followed by a remainder, the completion is that remainder, stripped.
  The completion begins with the formatted prompt again exactly when the stripped
  remainder does.
\<close>

theorem completion_is_rest_after_prompt:
  assumes "snd (generate self p mnt t tp rp ds tmpl) = Inr (fp, completion)"
    and "Decode out True \<in> set (fst (generate self p mnt t tp rp ds tmpl))"
    and "tk_decode (tokenizer self) out True = Inr (format_prompt p tmpl @ rest)"
  shows "completion = py_strip rest"
  using assms
  by (auto simp: generate_def logged_defs first_output_def Let_def split: sum.splits list.splits)

theorem completion_is_rest_after_prompt_witness:
  "snd (generate (demo_server (lit ''hi there'')) (lit ''hi'') (Some 100) (Some (7 / 10))
          (Some (9 / 10)) (Some (11 / 10)) (Some True) (Some (lit ''raw'')))
     = Inr (lit ''hi'', lit ''hi there'')
   \<and> Decode (lit ''hihi there'' @ [2]) True
       \<in> set (fst (generate (demo_server (lit ''hi there'')) (lit ''hi'') (Some 100) (Some (7 / 10))
                      (Some (9 / 10)) (Some (11 / 10)) (Some True) (Some (lit ''raw''))))
   \<and> tk_decode (tokenizer (demo_server (lit ''hi there''))) (lit ''hihi there'' @ [2]) True
       = Inr (format_prompt (lit ''hi'') (Some (lit ''raw'')) @ lit ''hi there'')
   \<and> lit ''hi there'' = py_strip (lit ''hi there'')"
proof -
  have h1: "snd (generate (demo_server (lit ''hi there'')) (lit ''hi'') (Some 100) (Some (7 / 10))
          (Some (9 / 10)) (Some (11 / 10)) (Some True) (Some (lit ''raw'')))
     = Inr (lit ''hi'', lit ''hi there'')"
    by (simp add: run_defs demo_defs)
  have h2: "Decode (lit ''hihi there'' @ [2]) True
       \<in> set (fst (generate (demo_server (lit ''hi there'')) (lit ''hi'') (Some 100) (Some (7 / 10))
                      (Some (9 / 10)) (Some (11 / 10)) (Some True) (Some (lit ''raw''))))"
    by (simp add: run_defs demo_defs)
  have h3: "tk_decode (tokenizer (demo_server (lit ''hi there''))) (lit ''hihi there'' @ [2]) True
       = Inr (format_prompt (lit ''hi'') (Some (lit ''raw'')) @ lit ''hi there'')"
    by (simp add: run_defs demo_defs)
  show ?thesis
    using h1 h2 h3 completion_is_rest_after_prompt [OF h1 h2 h3] by blast
qed

text \<open>
  The statement that the completion never begins with the formatted prompt fails: with
  the \<open>raw\<close> template and the prompt \<open>hi\<close>, a model that continues with \<open>hi there\<close>
  yields the decoded text \<open>hihi there\<close>, and the completion \<open>hi there\<close> begins with the
  formatted prompt \<open>hi\<close>.
\<close>

theorem completion_may_start_with_prompt:
  "snd (generate (demo_server (lit ''hi there'')) (lit ''hi'') (Some 100) (Some (7 / 10))
          (Some (9 / 10)) (Some (11 / 10)) (Some True) (Some (lit ''raw'')))
     = Inr (lit ''hi'', lit ''hi there'')
   \<and> format_prompt (lit ''hi'') (Some (lit ''raw'')) = lit ''hi''
   \<and> py_startswith (lit ''hi there'') (lit ''hi'')"
  by (simp add: run_defs demo_defs py_startswith_def)

subsection \<open>The decoding configuration\<close>

text \<open>
  C5. In every call of the model's \<open>generate\<close> made by \<open>ModelServer.generate\<close>,
  \<open>early_stopping\<close> is \<open>True\<close> and \<open>no_repeat_ngram_size\<close> is 3 whatever the caller
  passes, \<open>pad_token_id\<close> and \<open>eos_token_id\<close> are read from the server's tokenizer, and
  the five caller options are passed on as they are.
\<close>

theorem fixed_decoding_constants:
  assumes "ModelGenerate ids attn cfg \<in> set (fst (generate self p mnt t tp rp ds tmpl))"
  shows "cfg_early_stopping cfg = True \<and> cfg_no_repeat_ngram_size cfg = 3
         \<and> cfg_pad_token_id cfg = eos_token_id (tokenizer self)
         \<and> cfg_eos_token_id cfg = eos_token_id (tokenizer self)
         \<and> cfg_max_new_tokens cfg = mnt \<and> cfg_temperature cfg = t \<and> cfg_top_p cfg = tp
         \<and> cfg_repetition_penalty cfg = rp \<and> cfg_do_sample cfg = ds"
  using generate_model_call [OF assms] by simp

theorem fixed_decoding_constants_witness:
  "ModelGenerate (lit ''hi'') [1, 1] demo_config
     \<in> set (fst (generate (demo_server (lit '' ok'')) (lit ''hi'') (Some 5) (Some 2) None (Some 1)
                    (Some False) (Some (lit ''raw''))))
   \<and> cfg_early_stopping demo_config = True \<and> cfg_no_repeat_ngram_size demo_config = 3
   \<and> cfg_pad_token_id demo_config = eos_token_id (tokenizer (demo_server (lit '' ok'')))
   \<and> cfg_eos_token_id demo_config = eos_token_id (tokenizer (demo_server (lit '' ok'')))"
proof -
  have h: "ModelGenerate (lit ''hi'') [1, 1] demo_config
     \<in> set (fst (generate (demo_server (lit '' ok'')) (lit ''hi'') (Some 5) (Some 2) None (Some 1)
                    (Some False) (Some (lit ''raw''))))"
    by (simp add: run_defs demo_defs demo_config_def)
  show ?thesis
    using h fixed_decoding_constants [OF h] by simp
qed

text \<open>
  C10. For a server built by \<open>__init__\<close>, the \<open>pad_token_id\<close> passed to the model is
  the \<open>eos_token_id\<close> of the tokenizer as it was loaded; the tokenizer's own
  \<open>pad_token_id\<close> is not used, and setting a missing \<open>pad_token\<close> at load time does not
  change the value passed.
\<close>

theorem pad_token_id_is_eos_token_id:
  assumes "new_ModelServer load_model load_tokenizer model_path tokenizer_path = Inr self"
    and "ModelGenerate ids attn cfg \<in> set (fst (generate self p mnt t tp rp ds tmpl))"
  shows "\<exists>path tk. load_tokenizer path = Inr tk \<and> tokenizer self = ensure_pad_token tk
           \<and> cfg_pad_token_id cfg = eos_token_id tk
           \<and> cfg_pad_token_id cfg = eos_token_id (tokenizer self)"
proof -
  from assms(1) obtain path tk where
    l: "load_tokenizer path = Inr tk" and s: "tokenizer self = ensure_pad_token tk"
    by (auto simp: new_ModelServer_def split: sum.splits)
  have e: "eos_token_id (ensure_pad_token tk) = eos_token_id tk"
    by (simp add: ensure_pad_token_def eos_token_id_def split: option.splits)
  from generate_model_call [OF assms(2)]
  have "cfg_pad_token_id cfg = eos_token_id (tokenizer self)" by simp
  with l s e show ?thesis by auto
qed

theorem pad_token_id_is_eos_token_id_witness:
  "new_ModelServer (\<lambda>path. Inr (scripted_model (lit '' ok''))) (\<lambda>path. Inr char_tokenizer)
      (lit ''model'') None = Inr (demo_server (lit '' ok''))
   \<and> ModelGenerate (lit ''hi'') [1, 1] demo_config
       \<in> set (fst (generate (demo_server (lit '' ok'')) (lit ''hi'') (Some 5) (Some 2) None (Some 1)
                      (Some False) (Some (lit ''raw''))))
   \<and> pad_token_id (tokenizer (demo_server (lit '' ok''))) = Some 0
   \<and> eos_token_id (tokenizer (demo_server (lit '' ok''))) = Some 2
   \<and> cfg_pad_token_id demo_config = Some 2"
proof -
  have h1: "new_ModelServer (\<lambda>path. Inr (scripted_model (lit '' ok''))) (\<lambda>path. Inr char_tokenizer)
      (lit ''model'') None = Inr (demo_server (lit '' ok''))"
    by (simp add: new_ModelServer_def demo_defs ensure_pad_token_def)
  have h2: "ModelGenerate (lit ''hi'') [1, 1] demo_config
       \<in> set (fst (generate (demo_server (lit '' ok'')) (lit ''hi'') (Some 5) (Some 2) None (Some 1)
                      (Some False) (Some (lit ''raw''))))"
    by (simp add: run_defs demo_defs demo_config_def)
  have h3: "pad_token_id (tokenizer (demo_server (lit '' ok''))) = Some 0"
    by (simp add: pad_token_id_def demo_defs lit_def)
  have h4: "eos_token_id (tokenizer (demo_server (lit '' ok''))) = Some 2"
    by (simp add: eos_token_id_def demo_defs lit_def)
  show ?thesis
    using h1 h2 h3 h4 pad_token_id_is_eos_token_id [OF h1 h2] by auto
qed

subsection \<open>Truncation of long prompts\<close>

text \<open>
  C8. A formatted prompt whose encoding has more than 2048 tokens is encoded with
  truncation at 2048: the model receives the first 2048 tokens, no error is raised for
  the length, and \<open>generate\<close> returns a result whenever the model and the decoder do.
\<close>

theorem long_prompt_is_truncated:
  assumes "tk_encode (tokenizer self) (format_prompt p tmpl) = Inr ids"
    and "2048 < length ids"
  shows "\<exists>cfg. take 2 (fst (generate self p mnt t tp rp ds tmpl)) =
             [TokenizerCall (format_prompt p tmpl) True 2048,
              ModelGenerate (take 2048 ids) (replicate 2048 1) cfg]
           \<and> (\<forall>out rest full_response.
                model_generate (model self) (take 2048 ids) (replicate 2048 1) cfg = Inr (out # rest)
                \<and> tk_decode (tokenizer self) out True = Inr full_response \<longrightarrow>
                snd (generate self p mnt t tp rp ds tmpl) =
                  Inr (format_prompt p tmpl,
                       py_strip (drop (length (format_prompt p tmpl)) full_response)))"
  using assms
  by (auto simp: generate_def logged_defs first_output_def Let_def tokenizer_call_def min_def
      split: sum.splits list.splits)

theorem long_prompt_is_truncated_witness:
  "tk_encode (tokenizer (demo_server (lit '' ok''))) (format_prompt (replicate 2049 97) (Some (lit ''raw'')))
     = Inr (replicate 2049 97)
   \<and> 2048 < length (replicate 2049 (97::nat))
   \<and> (\<exists>cfg. take 2 (fst (generate (demo_server (lit '' ok'')) (replicate 2049 97) (Some 100)
                            (Some (7 / 10)) (Some (9 / 10)) (Some (11 / 10)) (Some True)
                            (Some (lit ''raw'')))) =
              [TokenizerCall (replicate 2049 97) True 2048,
               ModelGenerate (replicate 2048 97) (replicate 2048 1) cfg])
   \<and> snd (generate (demo_server (lit '' ok'')) (replicate 2049 97) (Some 100) (Some (7 / 10))
            (Some (9 / 10)) (Some (11 / 10)) (Some True) (Some (lit ''raw'')))
       = Inr (replicate 2049 97, lit ''ok'')"
proof -
  have h1: "tk_encode (tokenizer (demo_server (lit '' ok'')))
              (format_prompt (replicate 2049 97) (Some (lit ''raw''))) = Inr (replicate 2049 97)"
    by (simp add: demo_defs format_prompt_def lit_def)
  have h2: "2048 < length (replicate 2049 (97::nat))"
    by simp
  have fp: "format_prompt (replicate 2049 97) (Some (lit ''raw'')) = replicate 2049 97"
    by (simp add: format_prompt_def lit_def)
  from long_prompt_is_truncated [OF h1 h2, of "Some 100" "Some (7 / 10)" "Some (9 / 10)"
      "Some (11 / 10)" "Some True"]
  obtain cfg where
    c: "take 2 (fst (generate (demo_server (lit '' ok'')) (replicate 2049 97) (Some 100)
                       (Some (7 / 10)) (Some (9 / 10)) (Some (11 / 10)) (Some True)
                       (Some (lit ''raw'')))) =
          [TokenizerCall (replicate 2049 97) True 2048,
           ModelGenerate (replicate 2048 97) (replicate 2048 1) cfg]"
    and r: "\<And>out rest full_response.
              model_generate (model (demo_server (lit '' ok''))) (replicate 2048 97)
                (replicate 2048 1) cfg = Inr (out # rest) \<Longrightarrow>
              tk_decode (tokenizer (demo_server (lit '' ok''))) out True = Inr full_response \<Longrightarrow>
              snd (generate (demo_server (lit '' ok'')) (replicate 2049 97) (Some 100)
                     (Some (7 / 10)) (Some (9 / 10)) (Some (11 / 10)) (Some True)
                     (Some (lit ''raw'')))
                = Inr (replicate 2049 97, py_strip (drop 2049 full_response))"
    by (auto simp: fp)
  have m: "model_generate (model (demo_server (lit '' ok''))) (replicate 2048 97)
             (replicate 2048 1) cfg = Inr ((replicate 2048 97 @ lit '' ok'' @ [2]) # [])"
    by (simp add: demo_defs)
  have d: "tk_decode (tokenizer (demo_server (lit '' ok''))) (replicate 2048 97 @ lit '' ok'' @ [2]) True
             = Inr (replicate 2048 97 @ lit '' ok'')"
    by (simp add: demo_defs lit_def)
  have s: "py_strip (drop 2049 (replicate 2048 97 @ lit '' ok'')) = lit ''ok''"
    by (simp add: lit_def py_strip_def py_isspace_def)
  from r [OF m d] s c h1 h2 show ?thesis
    by auto
qed

subsection \<open>Failures of a generation\<close>

text \<open>
  C7. A failure of tokenization, generation or decoding is recovered where the request
  was made, is not retried, and leaves the server fit for the next request.
  \<^item> A run of \<open>generate\<close> that raises has made each library call at most once: its
    log is the tokenizer call alone, or followed by the one model call, or followed by
    that and the one decoder call, and the exception is the one the last call raised
    (or the \<open>IndexError\<close> of an empty batch).
  \<^item> The endpoint then makes no further call and answers with status 500 and the detail
    of line 220 followed by \<open>str(e)\<close>, which for a library error is its message.
  \<^item> The console then makes no further call for that line, writes the error line of
    line 270 with \<open>str(e)\<close>, and goes on with the remaining input.
  \<^item> On the same server, a request or a line for which the tokenizer, the model and the
    decoder succeed is answered with its completion, after exactly those three calls.
\<close>

theorem generation_failure_is_recovered:
  "(snd (generate self p mnt t tp rp ds tmpl) = Inl e \<longrightarrow>
      (let fp = format_prompt p tmpl;
           cfg = \<lparr>cfg_max_new_tokens = mnt, cfg_temperature = t, cfg_top_p = tp,
                  cfg_repetition_penalty = rp, cfg_do_sample = ds,
                  cfg_pad_token_id = eos_token_id (tokenizer self),
                  cfg_eos_token_id = eos_token_id (tokenizer self),
                  cfg_early_stopping = True, cfg_no_repeat_ngram_size = 3\<rparr>
       in (tokenizer_call (tokenizer self) fp True 2048 = Inl e
            \<and> fst (generate self p mnt t tp rp ds tmpl) = [TokenizerCall fp True 2048])
        \<or> (\<exists>inputs.
              tokenizer_call (tokenizer self) fp True 2048 = Inr inputs
              \<and> (model_generate (model self) (input_ids inputs) (attention_mask inputs) cfg = Inl e
                  \<or> model_generate (model self) (input_ids inputs) (attention_mask inputs) cfg = Inr []
                    \<and> e = IndexError)
              \<and> fst (generate self p mnt t tp rp ds tmpl) =
                  [TokenizerCall fp True 2048,
                   ModelGenerate (input_ids inputs) (attention_mask inputs) cfg])
        \<or> (\<exists>inputs out more.
              tokenizer_call (tokenizer self) fp True 2048 = Inr inputs
              \<and> model_generate (model self) (input_ids inputs) (attention_mask inputs) cfg
                  = Inr (out # more)
              \<and> tk_decode (tokenizer self) out True = Inl e
              \<and> fst (generate self p mnt t tp rp ds tmpl) =
                  [TokenizerCall fp True 2048,
                   ModelGenerate (input_ids inputs) (attention_mask inputs) cfg,
                   Decode out True])))
   \<and> (snd (generate self (prompt req) (max_new_tokens req) (temperature req) (top_p req)
           (repetition_penalty req) (do_sample req) (template req)) = Inl api_e \<longrightarrow>
      api_generate self req =
        (fst (generate self (prompt req) (max_new_tokens req) (temperature req) (top_p req)
                (repetition_penalty req) (do_sample req) (template req)),
         Inl \<lparr>status_code = 500,
              detail = lit ''Erreur de g'' @ [0xE9] @ lit ''n'' @ [0xE9] @ lit ''ration: ''
                       @ str_error api_e\<rparr>))
   \<and> str_error (LibraryError msg) = msg
   \<and> (let fp = format_prompt (prompt later_req) (template later_req);
           cfg = \<lparr>cfg_max_new_tokens = max_new_tokens later_req,
                  cfg_temperature = temperature later_req, cfg_top_p = top_p later_req,
                  cfg_repetition_penalty = repetition_penalty later_req,
                  cfg_do_sample = do_sample later_req,
                  cfg_pad_token_id = eos_token_id (tokenizer self),
                  cfg_eos_token_id = eos_token_id (tokenizer self),
                  cfg_early_stopping = True, cfg_no_repeat_ngram_size = 3\<rparr>
       in tokenizer_call (tokenizer self) fp True 2048 = Inr api_inputs
          \<and> model_generate (model self) (input_ids api_inputs) (attention_mask api_inputs) cfg
              = Inr (api_out # api_more)
          \<and> tk_decode (tokenizer self) api_out True = Inr api_full \<longrightarrow>
          api_generate self later_req =
            ([TokenizerCall fp True 2048,
              ModelGenerate (input_ids api_inputs) (attention_mask api_inputs) cfg,
              Decode api_out True],
             Inr \<lparr>response = py_strip (drop (length fp) api_full),
                  response_prompt = prompt later_req,
                  generation_config =
                    \<lparr>echo_max_new_tokens = max_new_tokens later_req,
                     echo_temperature = temperature later_req,
                     echo_top_p = top_p later_req,
                     echo_repetition_penalty = repetition_penalty later_req,
                     echo_template = template later_req\<rparr>\<rparr>))
   \<and> (py_strip typed \<noteq> []
       \<and> py_lower ulower (py_strip typed) \<notin> set [lit ''exit'', lit ''quit'', lit ''q'']
       \<and> snd (generate self (py_strip typed) (Some (args_max_new_tokens args))
                (Some (args_temperature args)) (Some (args_top_p args))
                (Some (args_repetition_penalty args)) (Some (args_do_sample args))
                (Some (args_template args))) = Inl console_e \<longrightarrow>
      interactive_mode ulower self args (Line typed # rest) =
        (fst (generate self (py_strip typed) (Some (args_max_new_tokens args))
                (Some (args_temperature args)) (Some (args_top_p args))
                (Some (args_repetition_penalty args)) (Some (args_do_sample args))
                (Some (args_template args)))
           @ fst (interactive_mode ulower self args rest),
         [[0x0A, 0x1F464] @ lit '' Vous: '',
          [0x1F916] @ lit '' Lumi: '',
          [0x274C] @ lit '' Erreur lors de la g'' @ [0xE9] @ lit ''n'' @ [0xE9] @ lit ''ration: ''
            @ str_error console_e @ [0x0A]]
           @ snd (interactive_mode ulower self args rest)))
   \<and> (let fp = format_prompt (py_strip later_typed) (Some (args_template args));
           cfg = \<lparr>cfg_max_new_tokens = Some (args_max_new_tokens args),
                  cfg_temperature = Some (args_temperature args),
                  cfg_top_p = Some (args_top_p args),
                  cfg_repetition_penalty = Some (args_repetition_penalty args),
                  cfg_do_sample = Some (args_do_sample args),
                  cfg_pad_token_id = eos_token_id (tokenizer self),
                  cfg_eos_token_id = eos_token_id (tokenizer self),
                  cfg_early_stopping = True, cfg_no_repeat_ngram_size = 3\<rparr>
       in py_strip later_typed \<noteq> []
          \<and> py_lower ulower (py_strip later_typed) \<notin> set [lit ''exit'', lit ''quit'', lit ''q'']
          \<and> tokenizer_call (tokenizer self) fp True 2048 = Inr later_inputs
          \<and> model_generate (model self) (input_ids later_inputs) (attention_mask later_inputs) cfg
              = Inr (later_out # later_more)
          \<and> tk_decode (tokenizer self) later_out True = Inr later_full \<longrightarrow>
          interactive_mode ulower self args (Line later_typed # later_rest) =
            ([TokenizerCall fp True 2048,
              ModelGenerate (input_ids later_inputs) (attention_mask later_inputs) cfg,
              Decode later_out True]
               @ fst (interactive_mode ulower self args later_rest),
             [[0x0A, 0x1F464] @ lit '' Vous: '',
              [0x1F916] @ lit '' Lumi: '',
              py_strip (drop (length fp) later_full) @ [0x0A]]
               @ snd (interactive_mode ulower self args later_rest)))"
proof (intro conjI)
  show "snd (generate self p mnt t tp rp ds tmpl) = Inl e \<longrightarrow>
      (let fp = format_prompt p tmpl;
           cfg = \<lparr>cfg_max_new_tokens = mnt, cfg_temperature = t, cfg_top_p = tp,
                  cfg_repetition_penalty = rp, cfg_do_sample = ds,
                  cfg_pad_token_id = eos_token_id (tokenizer self),
                  cfg_eos_token_id = eos_token_id (tokenizer self),
                  cfg_early_stopping = True, cfg_no_repeat_ngram_size = 3\<rparr>
       in (tokenizer_call (tokenizer self) fp True 2048 = Inl e
            \<and> fst (generate self p mnt t tp rp ds tmpl) = [TokenizerCall fp True 2048])
        \<or> (\<exists>inputs.
              tokenizer_call (tokenizer self) fp True 2048 = Inr inputs
              \<and> (model_generate (model self) (input_ids inputs) (attention_mask inputs) cfg = Inl e
                  \<or> model_generate (model self) (input_ids inputs) (attention_mask inputs) cfg = Inr []
                    \<and> e = IndexError)
              \<and> fst (generate self p mnt t tp rp ds tmpl) =
                  [TokenizerCall fp True 2048,
                   ModelGenerate (input_ids inputs) (attention_mask inputs) cfg])
        \<or> (\<exists>inputs out more.
              tokenizer_call (tokenizer self) fp True 2048 = Inr inputs
              \<and> model_generate (model self) (input_ids inputs) (attention_mask inputs) cfg
                  = Inr (out # more)
              \<and> tk_decode (tokenizer self) out True = Inl e
              \<and> fst (generate self p mnt t tp rp ds tmpl) =
                  [TokenizerCall fp True 2048,
                   ModelGenerate (input_ids inputs) (attention_mask inputs) cfg,
                   Decode out True]))"
    by (auto simp: generate_def logged_defs first_output_def Let_def
        split: sum.splits list.splits)
next
  show "snd (generate self (prompt req) (max_new_tokens req) (temperature req) (top_p req)
           (repetition_penalty req) (do_sample req) (template req)) = Inl api_e \<longrightarrow>
      api_generate self req =
        (fst (generate self (prompt req) (max_new_tokens req) (temperature req) (top_p req)
                (repetition_penalty req) (do_sample req) (template req)),
         Inl \<lparr>status_code = 500,
              detail = lit ''Erreur de g'' @ [0xE9] @ lit ''n'' @ [0xE9] @ lit ''ration: ''
                       @ str_error api_e\<rparr>)"
    by (simp add: api_generate_def api_error_prefix_def Let_def)
next
  show "str_error (LibraryError msg) = msg"
    by simp
next
  show "let fp = format_prompt (prompt later_req) (template later_req);
           cfg = \<lparr>cfg_max_new_tokens = max_new_tokens later_req,
                  cfg_temperature = temperature later_req, cfg_top_p = top_p later_req,
                  cfg_repetition_penalty = repetition_penalty later_req,
                  cfg_do_sample = do_sample later_req,
                  cfg_pad_token_id = eos_token_id (tokenizer self),
                  cfg_eos_token_id = eos_token_id (tokenizer self),
                  cfg_early_stopping = True, cfg_no_repeat_ngram_size = 3\<rparr>
       in tokenizer_call (tokenizer self) fp True 2048 = Inr api_inputs
          \<and> model_generate (model self) (input_ids api_inputs) (attention_mask api_inputs) cfg
              = Inr (api_out # api_more)
          \<and> tk_decode (tokenizer self) api_out True = Inr api_full \<longrightarrow>
          api_generate self later_req =
            ([TokenizerCall fp True 2048,
              ModelGenerate (input_ids api_inputs) (attention_mask api_inputs) cfg,
              Decode api_out True],
             Inr \<lparr>response = py_strip (drop (length fp) api_full),
                  response_prompt = prompt later_req,
                  generation_config =
                    \<lparr>echo_max_new_tokens = max_new_tokens later_req,
                     echo_temperature = temperature later_req,
                     echo_top_p = top_p later_req,
                     echo_repetition_penalty = repetition_penalty later_req,
                     echo_template = template later_req\<rparr>\<rparr>)"
    by (simp add: api_generate_def generate_def logged_defs first_output_def Let_def)
next
  show "py_strip typed \<noteq> []
       \<and> py_lower ulower (py_strip typed) \<notin> set [lit ''exit'', lit ''quit'', lit ''q'']
       \<and> snd (generate self (py_strip typed) (Some (args_max_new_tokens args))
                (Some (args_temperature args)) (Some (args_top_p args))
                (Some (args_repetition_penalty args)) (Some (args_do_sample args))
                (Some (args_template args))) = Inl console_e \<longrightarrow>
      interactive_mode ulower self args (Line typed # rest) =
        (fst (generate self (py_strip typed) (Some (args_max_new_tokens args))
                (Some (args_temperature args)) (Some (args_top_p args))
                (Some (args_repetition_penalty args)) (Some (args_do_sample args))
                (Some (args_template args)))
           @ fst (interactive_mode ulower self args rest),
         [[0x0A, 0x1F464] @ lit '' Vous: '',
          [0x1F916] @ lit '' Lumi: '',
          [0x274C] @ lit '' Erreur lors de la g'' @ [0xE9] @ lit ''n'' @ [0xE9] @ lit ''ration: ''
            @ str_error console_e @ [0x0A]]
           @ snd (interactive_mode ulower self args rest))"
    by (simp add: Let_def followed_by_def input_prompt_def lumi_prefix_def console_error_def
        py_print_def)
next
  show "let fp = format_prompt (py_strip later_typed) (Some (args_template args));
           cfg = \<lparr>cfg_max_new_tokens = Some (args_max_new_tokens args),
                  cfg_temperature = Some (args_temperature args),
                  cfg_top_p = Some (args_top_p args),
                  cfg_repetition_penalty = Some (args_repetition_penalty args),
                  cfg_do_sample = Some (args_do_sample args),
                  cfg_pad_token_id = eos_token_id (tokenizer self),
                  cfg_eos_token_id = eos_token_id (tokenizer self),
                  cfg_early_stopping = True, cfg_no_repeat_ngram_size = 3\<rparr>
       in py_strip later_typed \<noteq> []
          \<and> py_lower ulower (py_strip later_typed) \<notin> set [lit ''exit'', lit ''quit'', lit ''q'']
          \<and> tokenizer_call (tokenizer self) fp True 2048 = Inr later_inputs
          \<and> model_generate (model self) (input_ids later_inputs) (attention_mask later_inputs) cfg
              = Inr (later_out # later_more)
          \<and> tk_decode (tokenizer self) later_out True = Inr later_full \<longrightarrow>
          interactive_mode ulower self args (Line later_typed # later_rest) =
            ([TokenizerCall fp True 2048,
              ModelGenerate (input_ids later_inputs) (attention_mask later_inputs) cfg,
              Decode later_out True]
               @ fst (interactive_mode ulower self args later_rest),
             [[0x0A, 0x1F464] @ lit '' Vous: '',
              [0x1F916] @ lit '' Lumi: '',
              py_strip (drop (length fp) later_full) @ [0x0A]]
               @ snd (interactive_mode ulower self args later_rest))"
    by (simp add: Let_def followed_by_def input_prompt_def lumi_prefix_def py_print_def
        generate_def logged_defs first_output_def)
qed

theorem generation_failure_is_recovered_witness:
  "api_generate (demo_server (lit '' ok'')) failing_request =
     ([TokenizerCall (lit ''hi!'') True 2048,
       ModelGenerate (lit ''hi!'') [1, 1, 1]
         \<lparr>cfg_max_new_tokens = Some 100, cfg_temperature = Some (7 / 10),
          cfg_top_p = Some (9 / 10), cfg_repetition_penalty = Some (11 / 10),
          cfg_do_sample = Some True, cfg_pad_token_id = Some 2, cfg_eos_token_id = Some 2,
          cfg_early_stopping = True, cfg_no_repeat_ngram_size = 3\<rparr>],
      Inl \<lparr>status_code = 500,
           detail = lit ''Erreur de g'' @ [0xE9] @ lit ''n'' @ [0xE9]
                    @ lit ''ration: generation failed''\<rparr>)
   \<and> api_generate (demo_server (lit '' ok'')) valid_request =
       ([TokenizerCall (lit ''hi'') True 2048,
         ModelGenerate (lit ''hi'') [1, 1]
           \<lparr>cfg_max_new_tokens = Some 100, cfg_temperature = Some (7 / 10),
            cfg_top_p = Some (9 / 10), cfg_repetition_penalty = Some (11 / 10),
            cfg_do_sample = Some True, cfg_pad_token_id = Some 2, cfg_eos_token_id = Some 2,
            cfg_early_stopping = True, cfg_no_repeat_ngram_size = 3\<rparr>,
         Decode (lit ''hi ok'' @ [2]) True],
        Inr \<lparr>response = lit ''ok'', response_prompt = lit ''hi'',
             generation_config =
               \<lparr>echo_max_new_tokens = Some 100, echo_temperature = Some (7 / 10),
                echo_top_p = Some (9 / 10), echo_repetition_penalty = Some (11 / 10),
                echo_template = Some (lit ''raw'')\<rparr>\<rparr>)
   \<and> interactive_mode (\<lambda>s. s) (demo_server (lit '' ok'')) (demo_args (lit ''raw''))
        [Line (lit ''hi!''), Line (lit ''hi'')] =
       ([TokenizerCall (lit ''hi!'') True 2048,
         ModelGenerate (lit ''hi!'') [1, 1, 1]
           \<lparr>cfg_max_new_tokens = Some 100, cfg_temperature = Some (7 / 10),
            cfg_top_p = Some (9 / 10), cfg_repetition_penalty = Some (11 / 10),
            cfg_do_sample = Some True, cfg_pad_token_id = Some 2, cfg_eos_token_id = Some 2,
            cfg_early_stopping = True, cfg_no_repeat_ngram_size = 3\<rparr>,
         TokenizerCall (lit ''hi'') True 2048,
         ModelGenerate (lit ''hi'') [1, 1]
           \<lparr>cfg_max_new_tokens = Some 100, cfg_temperature = Some (7 / 10),
            cfg_top_p = Some (9 / 10), cfg_repetition_penalty = Some (11 / 10),
            cfg_do_sample = Some True, cfg_pad_token_id = Some 2, cfg_eos_token_id = Some 2,
            cfg_early_stopping = True, cfg_no_repeat_ngram_size = 3\<rparr>,
         Decode (lit ''hi ok'' @ [2]) True],
        [[0x0A, 0x1F464] @ lit '' Vous: '',
         [0x1F916] @ lit '' Lumi: '',
         [0x274C] @ lit '' Erreur lors de la g'' @ [0xE9] @ lit ''n'' @ [0xE9]
           @ lit ''ration: generation failed'' @ [0x0A],
         [0x0A, 0x1F464] @ lit '' Vous: '',
         [0x1F916] @ lit '' Lumi: '',
         lit ''ok'' @ [0x0A],
         [0x0A, 0x1F464] @ lit '' Vous: '',
         [0x0A, 0x0A] @ lit ''Au revoir! '' @ [0x1F44B, 0x0A]])"
proof -
  let ?srv = "demo_server (lit '' ok'')"
  let ?args = "demo_args (lit ''raw'')"
  let ?cfg = "\<lparr>cfg_max_new_tokens = Some 100, cfg_temperature = Some (7 / 10),
            cfg_top_p = Some (9 / 10), cfg_repetition_penalty = Some (11 / 10),
            cfg_do_sample = Some True, cfg_pad_token_id = Some 2, cfg_eos_token_id = Some (2::nat),
            cfg_early_stopping = True, cfg_no_repeat_ngram_size = 3\<rparr>"
  let ?bad = "[TokenizerCall (lit ''hi!'') True 2048, ModelGenerate (lit ''hi!'') [1, 1, 1] ?cfg]"
  let ?good = "[TokenizerCall (lit ''hi'') True 2048, ModelGenerate (lit ''hi'') [1, 1] ?cfg,
               Decode (lit ''hi ok'' @ [2]) True]"
  have f0: "snd (generate ?srv (lit ''hi!'') (Some 100) (Some (7 / 10)) (Some (9 / 10))
                   (Some (11 / 10)) (Some True) (Some (lit ''raw'')))
              = Inl (LibraryError (lit ''generation failed''))"
    by (simp add: run_defs demo_defs)
  have t0: "tokenizer_call (tokenizer ?srv) (format_prompt (lit ''hi!'') (Some (lit ''raw'')))
              True 2048 = Inr \<lparr>input_ids = lit ''hi!'', attention_mask = [1, 1, 1]\<rparr>"
    by (simp add: run_defs demo_defs)
  have fpb: "format_prompt (lit ''hi!'') (Some (lit ''raw'')) = lit ''hi!''"
    by (simp add: format_prompt_def lit_def)
  have l1: "tokenizer_call (tokenizer ?srv)
              (format_prompt (prompt valid_request) (template valid_request)) True 2048
              = Inr \<lparr>input_ids = lit ''hi'', attention_mask = [1, 1]\<rparr>"
    by (simp add: run_defs demo_defs request_defs)
  have l2: "model_generate (model ?srv) (lit ''hi'') [1, 1] ?cfg = Inr [lit ''hi ok'' @ [2]]"
    by (simp add: demo_defs lit_def)
  have l3: "tk_decode (tokenizer ?srv) (lit ''hi ok'' @ [2]) True = Inr (lit ''hi ok'')"
    by (simp add: demo_defs lit_def)
  have s1: "py_strip (lit ''hi!'') = lit ''hi!''" and s2: "py_strip (lit ''hi'') = lit ''hi''"
    by (simp_all add: lit_def py_strip_def py_isspace_def)
  have k1: "py_lower (\<lambda>s. s) (lit ''hi!'') \<notin> set [lit ''exit'', lit ''quit'', lit ''q'']"
    and k2: "py_lower (\<lambda>s. s) (lit ''hi'') \<notin> set [lit ''exit'', lit ''quit'', lit ''q'']"
    by (simp_all add: lit_def py_lower_def ascii_lower_def)
  have l4: "tokenizer_call (tokenizer ?srv)
              (format_prompt (lit ''hi'') (Some (args_template ?args))) True 2048
              = Inr \<lparr>input_ids = lit ''hi'', attention_mask = [1, 1]\<rparr>"
    by (simp add: run_defs demo_defs)
  have ne: "lit ''hi!'' \<noteq> []" "lit ''hi'' \<noteq> []"
    by (simp_all add: lit_def)
  have cat: "lit ''ration: '' @ lit ''generation failed'' = lit ''ration: generation failed''"
    by (simp add: lit_def)
  have eos: "eos_token_id (tokenizer ?srv) = Some 2"
    by (simp add: eos_token_id_def demo_defs lit_def)
  have fpv: "format_prompt (prompt valid_request) (template valid_request) = lit ''hi''"
    and fpc: "format_prompt (lit ''hi'') (Some (args_template ?args)) = lit ''hi''"
    by (simp_all add: format_prompt_def request_defs demo_defs lit_def)
  have cut: "py_strip (drop (length (lit ''hi'')) (lit ''hi ok'')) = lit ''ok''"
    by (simp add: lit_def py_strip_def py_isspace_def)
  note r = generation_failure_is_recovered [where self = "?srv"
      and p = "lit ''hi!''" and mnt = "Some 100" and t = "Some (7 / 10)" and tp = "Some (9 / 10)"
      and rp = "Some (11 / 10)" and ds = "Some True" and tmpl = "Some (lit ''raw'')"
      and e = "LibraryError (lit ''generation failed'')"
      and req = failing_request and api_e = "LibraryError (lit ''generation failed'')"
      and msg = "lit ''generation failed''"
      and later_req = valid_request
      and api_inputs = "\<lparr>input_ids = lit ''hi'', attention_mask = [1, 1]\<rparr>"
      and api_out = "lit ''hi ok'' @ [2]" and api_more = "[]" and api_full = "lit ''hi ok''"
      and typed = "lit ''hi!''" and ulower = "\<lambda>s. s" and args = "?args"
      and console_e = "LibraryError (lit ''generation failed'')"
      and rest = "[Line (lit ''hi'')]"
      and later_typed = "lit ''hi''"
      and later_inputs = "\<lparr>input_ids = lit ''hi'', attention_mask = [1, 1]\<rparr>"
      and later_out = "lit ''hi ok'' @ [2]" and later_more = "[]" and later_full = "lit ''hi ok''"
      and later_rest = "[]"]
  note r_shape = r [THEN conjunct1]
  note r_api_fail = r [THEN conjunct2, THEN conjunct1]
  note r_api_later = r [THEN conjunct2, THEN conjunct2, THEN conjunct2, THEN conjunct1]
  note r_console_fail =
    r [THEN conjunct2, THEN conjunct2, THEN conjunct2, THEN conjunct2, THEN conjunct1]
  note r_console_later =
    r [THEN conjunct2, THEN conjunct2, THEN conjunct2, THEN conjunct2, THEN conjunct2]
  have m0: "model_generate (model ?srv) (lit ''hi!'') [1, 1, 1] ?cfg
              = Inl (LibraryError (lit ''generation failed''))"
    by (simp add: demo_defs lit_def)
  have g0: "fst (generate ?srv (lit ''hi!'') (Some 100) (Some (7 / 10)) (Some (9 / 10))
                   (Some (11 / 10)) (Some True) (Some (lit ''raw''))) = ?bad"
    using r_shape f0 t0 m0 eos by (auto simp: Let_def fpb)
  have f1: "generate ?srv (prompt failing_request) (max_new_tokens failing_request)
              (temperature failing_request) (top_p failing_request)
              (repetition_penalty failing_request) (do_sample failing_request)
              (template failing_request) = (?bad, Inl (LibraryError (lit ''generation failed'')))"
    using f0 g0 by (simp add: request_defs prod_eq_iff)
  have f2: "generate ?srv (lit ''hi!'') (Some (args_max_new_tokens ?args))
              (Some (args_temperature ?args)) (Some (args_top_p ?args))
              (Some (args_repetition_penalty ?args)) (Some (args_do_sample ?args))
              (Some (args_template ?args)) = (?bad, Inl (LibraryError (lit ''generation failed'')))"
    using f0 g0 by (simp add: demo_args_def prod_eq_iff)
  have a1: "api_generate ?srv failing_request =
              (?bad, Inl \<lparr>status_code = 500,
                          detail = lit ''Erreur de g'' @ [0xE9] @ lit ''n'' @ [0xE9]
                                   @ lit ''ration: generation failed''\<rparr>)"
    using r_api_fail f1 by (simp add: lit_def)
  have a2: "api_generate ?srv valid_request =
              (?good,
               Inr \<lparr>response = lit ''ok'', response_prompt = lit ''hi'',
                    generation_config =
                      \<lparr>echo_max_new_tokens = Some 100, echo_temperature = Some (7 / 10),
                       echo_top_p = Some (9 / 10), echo_repetition_penalty = Some (11 / 10),
                       echo_template = Some (lit ''raw'')\<rparr>\<rparr>)"
  proof -
    have "api_generate ?srv valid_request =
            ([TokenizerCall (format_prompt (prompt valid_request) (template valid_request)) True 2048,
              ModelGenerate (lit ''hi'') [1, 1] ?cfg, Decode (lit ''hi ok'' @ [2]) True],
             Inr \<lparr>response = py_strip (drop (length (format_prompt (prompt valid_request)
                                   (template valid_request))) (lit ''hi ok'')),
                  response_prompt = prompt valid_request,
                  generation_config =
                    \<lparr>echo_max_new_tokens = max_new_tokens valid_request,
                     echo_temperature = temperature valid_request,
                     echo_top_p = top_p valid_request,
                     echo_repetition_penalty = repetition_penalty valid_request,
                     echo_template = template valid_request\<rparr>\<rparr>)"
      using r_api_later l1 l2 l3 eos by (simp add: Let_def request_defs)
    then show ?thesis
      unfolding fpv cut by (simp add: request_defs)
  qed
  have c2: "interactive_mode (\<lambda>s. s) ?srv ?args [Line (lit ''hi'')] =
              (?good,
               [[0x0A, 0x1F464] @ lit '' Vous: '', [0x1F916] @ lit '' Lumi: '',
                lit ''ok'' @ [0x0A],
                [0x0A, 0x1F464] @ lit '' Vous: '',
                [0x0A, 0x0A] @ lit ''Au revoir! '' @ [0x1F44B, 0x0A]])"
  proof -
    have "interactive_mode (\<lambda>s. s) ?srv ?args (Line (lit ''hi'') # []) =
            ([TokenizerCall (format_prompt (lit ''hi'') (Some (args_template ?args))) True 2048,
              ModelGenerate (lit ''hi'') [1, 1] ?cfg, Decode (lit ''hi ok'' @ [2]) True]
               @ fst (interactive_mode (\<lambda>s. s) ?srv ?args []),
             [[0x0A, 0x1F464] @ lit '' Vous: '', [0x1F916] @ lit '' Lumi: '',
              py_strip (drop (length (format_prompt (lit ''hi'') (Some (args_template ?args))))
                          (lit ''hi ok'')) @ [0x0A]]
               @ snd (interactive_mode (\<lambda>s. s) ?srv ?args []))"
      using r_console_later s2 k2 l4 l2 l3 eos ne
      by (simp add: Let_def demo_args_def del: interactive_mode.simps)
    then show ?thesis
      unfolding fpc cut
      by (simp add: input_prompt_def farewell_interrupted_def py_print_def)
  qed
  have c1: "interactive_mode (\<lambda>s. s) ?srv ?args (Line (lit ''hi!'') # [Line (lit ''hi'')]) =
              (?bad @ fst (interactive_mode (\<lambda>s. s) ?srv ?args [Line (lit ''hi'')]),
               [[0x0A, 0x1F464] @ lit '' Vous: '', [0x1F916] @ lit '' Lumi: '',
                [0x274C] @ lit '' Erreur lors de la g'' @ [0xE9] @ lit ''n'' @ [0xE9]
                  @ lit ''ration: generation failed'' @ [0x0A]]
                 @ snd (interactive_mode (\<lambda>s. s) ?srv ?args [Line (lit ''hi'')]))"
    using r_console_fail s1 k1 f2 ne by (simp add: cat del: interactive_mode.simps)
  show ?thesis
    unfolding a1 a2 c1 c2 by simp
qed

subsection \<open>Leaving the console\<close>

text \<open>
  C9. A line that is \<open>exit\<close>, \<open>quit\<close> or \<open>q\<close> up to the case of its ASCII letters
  (also when surrounded by whitespace) ends the loop with the farewell and without a
  library call, whatever input follows; so does the end of input. An empty line makes
  no library call and the loop goes on with the remaining input.
\<close>

theorem console_exit_and_empty_input:
  "(map ascii_lower typed \<in> {lit ''exit'', lit ''quit'', lit ''q''} \<longrightarrow>
      interactive_mode ulower self args (Line typed # rest) = ([], [input_prompt, farewell]))
   \<and> (map ascii_lower (py_strip typed) \<in> {lit ''exit'', lit ''quit'', lit ''q''} \<longrightarrow>
      interactive_mode ulower self args (Line typed # rest) = ([], [input_prompt, farewell]))
   \<and> interactive_mode ulower self args [] = ([], [input_prompt, farewell_interrupted])
   \<and> interactive_mode ulower self args (Line [] # rest) =
       followed_by ([], [input_prompt]) (interactive_mode ulower self args rest)
   \<and> fst (interactive_mode ulower self args (Line [] # rest)) =
       fst (interactive_mode ulower self args rest)"
proof (intro conjI impI)
  assume a: "map ascii_lower typed \<in> {lit ''exit'', lit ''quit'', lit ''q''}"
  then have "py_strip typed = typed" by (rule keyword_variant_strip)
  with a have "map ascii_lower (py_strip typed) \<in> {lit ''exit'', lit ''quit'', lit ''q''}"
    by simp
  then show "interactive_mode ulower self args (Line typed # rest) = ([], [input_prompt, farewell])"
    by (rule interactive_mode_exit)
next
  assume "map ascii_lower (py_strip typed) \<in> {lit ''exit'', lit ''quit'', lit ''q''}"
  then show "interactive_mode ulower self args (Line typed # rest) = ([], [input_prompt, farewell])"
    by (rule interactive_mode_exit)
next
  show "interactive_mode ulower self args [] = ([], [input_prompt, farewell_interrupted])"
    by simp
next
  show "interactive_mode ulower self args (Line [] # rest) =
          followed_by ([], [input_prompt]) (interactive_mode ulower self args rest)"
    by (simp add: py_strip_empty py_lower_empty lit_def)
next
  show "fst (interactive_mode ulower self args (Line [] # rest)) =
          fst (interactive_mode ulower self args rest)"
    by (simp add: py_strip_empty py_lower_empty lit_def followed_by_def)
qed

theorem console_exit_and_empty_input_witness:
  "map ascii_lower (lit ''EXIT'') \<in> {lit ''exit'', lit ''quit'', lit ''q''}
   \<and> interactive_mode (\<lambda>s. s) (demo_server (lit '' ok'')) (demo_args (lit ''raw''))
        [Line (lit ''EXIT''), Line (lit ''hi'')] = ([], [input_prompt, farewell])
   \<and> map ascii_lower (py_strip (lit '' Quit '')) \<in> {lit ''exit'', lit ''quit'', lit ''q''}
   \<and> interactive_mode (\<lambda>s. s) (demo_server (lit '' ok'')) (demo_args (lit ''raw''))
        [Line (lit '' Quit ''), Line (lit ''hi'')] = ([], [input_prompt, farewell])
   \<and> interactive_mode (\<lambda>s. s) (demo_server (lit '' ok'')) (demo_args (lit ''raw''))
        [Line [], Line (lit ''q'')] = ([], [input_prompt, input_prompt, farewell])"
proof -
  have h1: "map ascii_lower (lit ''EXIT'') \<in> {lit ''exit'', lit ''quit'', lit ''q''}"
    by (simp add: lit_def ascii_lower_def)
  have h2: "map ascii_lower (py_strip (lit '' Quit '')) \<in> {lit ''exit'', lit ''quit'', lit ''q''}"
    by (simp add: lit_def ascii_lower_def py_strip_def py_isspace_def)
  have h3: "map ascii_lower (lit ''q'') \<in> {lit ''exit'', lit ''quit'', lit ''q''}"
    by (simp add: lit_def ascii_lower_def)
  note w = console_exit_and_empty_input [of _ "\<lambda>s. s" "demo_server (lit '' ok'')" "demo_args (lit ''raw'')"]
  show ?thesis
    using h1 h2 h3 w [of "lit ''EXIT''" "[Line (lit ''hi'')]"]
      w [of "lit '' Quit ''" "[Line (lit ''hi'')]"]
      w [of "lit ''q''" "[]"] w [of "[]" "[Line (lit ''q'')]"]
    by (simp add: followed_by_def)
qed

end
